theory Spec2Isabelle
  imports Main
begin

section \<open>JavaScript values used by \<open>src/index.ts\<close>\<close>

text \<open>
  The server reads its configuration from \<open>process.env\<close>, a dictionary from variable
  names to strings; a variable that is not set reads as \<open>undefined\<close> (\<open>None\<close>).
\<close>

type_synonym env = "string \<rightharpoonup> string"

text \<open>
  A thrown value that converts to a string. \<open>JsError n m\<close> is an \<open>Error\<close> object with
  name \<open>n\<close> and message \<open>m\<close>; \<open>JsThrown v\<close> is any other thrown value that has a
  string conversion, kept as that string. \<open>error_to_string\<close> is the string the
  conversion gives (\<open>Error.prototype.toString\<close> for an \<open>Error\<close>). The identity
  library and the driver reject with \<open>Error\<close> objects, so \<open>getToken\<close> and
  \<open>sql.connect\<close> throw values of this type.
\<close>

datatype js_error = JsError string string | JsThrown string

fun error_to_string :: "js_error \<Rightarrow> string" where
  "error_to_string (JsError n m) =
     (if m = [] then n else if n = [] then m else n @ '': '' @ m)"
| "error_to_string (JsThrown v) = v"

text \<open>
  What a \<open>catch (error)\<close> of the call handler can receive: JavaScript lets a tool's
  body throw any value. \<open>Printable\<close> is a value that converts to a string,
  \<open>SymbolValue d\<close> is a Symbol with description \<open>d\<close>, and \<open>OpaqueObject\<close> is an
  object whose conversion to a string throws, such as \<open>Object.create(null)\<close>.
  \<open>template_literal\<close> is the interpolation \<open>`${error}`\<close>: for a Symbol and for
  such an object the interpolation itself throws a \<open>TypeError\<close>.
\<close>

datatype js_thrown = Printable js_error | SymbolValue string | OpaqueObject

fun template_literal :: "js_thrown \<Rightarrow> js_error + string" where
  "template_literal (Printable err) = Inr (error_to_string err)"
| "template_literal (SymbolValue d) =
     Inl (JsError ''TypeError'' ''Cannot convert a Symbol value to a string'')"
| "template_literal OpaqueObject =
     Inl (JsError ''TypeError'' ''Cannot convert object to primitive value'')"

text \<open>
  A \<open>Date\<close> object holds a time value in milliseconds, or NaN (\<open>InvalidDate\<close>) when
  the constructor's argument is beyond 8.64e15 in magnitude. Comparing two dates with
  \<open>>\<close> compares the time values, and any comparison with NaN is false.
\<close>

datatype js_date = Date int | InvalidDate

definition new_Date :: "int \<Rightarrow> js_date" where
  "new_Date t = (if \<bar>t\<bar> \<le> 8640000000000000 then Date t else InvalidDate)"

fun date_gt :: "js_date \<Rightarrow> js_date \<Rightarrow> bool" where
  "date_gt (Date a) (Date b) = (b < a)"
| "date_gt _ _ = False"

text \<open>Truthiness of an optional string: \<open>undefined\<close> and \<open>""\<close> are falsy.\<close>

fun truthy :: "string option \<Rightarrow> bool" where
  "truthy None = False"
| "truthy (Some s) = (s \<noteq> [])"

text \<open>\<open>x || ""\<close> on an optional string.\<close>

fun or_empty :: "string option \<Rightarrow> string" where
  "or_empty None = []"
| "or_empty (Some s) = s"

text \<open>\<open>String.prototype.toLowerCase\<close>, on the ASCII letters.\<close>

definition lower_char :: "char \<Rightarrow> char" where
  "lower_char c =
     (case map_of (zip ''ABCDEFGHIJKLMNOPQRSTUVWXYZ'' ''abcdefghijklmnopqrstuvwxyz'') c of
        None \<Rightarrow> c
      | Some d \<Rightarrow> d)"

definition toLowerCase :: "string \<Rightarrow> string" where
  "toLowerCase s = map lower_char s"

text \<open>\<open>String.prototype.includes\<close>: the pattern occurs somewhere in the string.\<close>

definition startsWith :: "string \<Rightarrow> string \<Rightarrow> bool" where
  "startsWith s pat = (take (length pat) s = pat)"

fun includes_str :: "string \<Rightarrow> string \<Rightarrow> bool" where
  "includes_str [] pat = (pat = [])"
| "includes_str (c # cs) pat = (startsWith (c # cs) pat \<or> includes_str cs pat)"

text \<open>
  \<open>parseInt(s, 10)\<close>: leading white space is skipped, an optional sign is read, then
  decimal digits up to the first other character; with no digit the result is NaN
  (\<open>None\<close>). The result is an exact integer here, where JavaScript rounds to a double.
\<close>

definition is_space :: "char \<Rightarrow> bool" where
  "is_space c = ((of_char c :: nat) \<in> {9, 10, 11, 12, 13, 32})"

definition is_digit :: "char \<Rightarrow> bool" where
  "is_digit c = (48 \<le> (of_char c :: nat) \<and> (of_char c :: nat) \<le> 57)"

fun digits_value :: "nat \<Rightarrow> string \<Rightarrow> nat" where
  "digits_value acc [] = acc"
| "digits_value acc (c # cs) = digits_value (10 * acc + ((of_char c :: nat) - 48)) cs"

definition parseInt :: "string \<Rightarrow> int option" where
  "parseInt s =
     (let t = dropWhile is_space s;
          neg = (t \<noteq> [] \<and> hd t = CHR ''-'');
          u = (if t \<noteq> [] \<and> (hd t = CHR ''-'' \<or> hd t = CHR ''+'') then tl t else t);
          ds = takeWhile is_digit u
      in if ds = [] then None
         else Some ((if neg then - 1 else 1) * int (digits_value 0 ds)))"

section \<open>The connection configuration\<close>

text \<open>
  The part of the driver's \<open>sql.config\<close> that \<open>createSqlConfig\<close> fills in. A field
  the code does not set is \<open>None\<close>. \<open>server\<close> and \<open>database\<close> are optional because
  \<open>process.env.SERVER_NAME!\<close> is \<open>undefined\<close> when the variable is not set.
\<close>

record sql_options =
  encrypt :: bool
  trustServerCertificate :: bool
  enableArithAbort :: "bool option"

datatype sql_authentication =
    Ntlm string string string
  | AzureActiveDirectoryAccessToken "string option"

record sql_config =
  server :: "string option"
  database :: "string option"
  options :: sql_options
  connectionTimeout :: "int option"
  authentication :: "sql_authentication option"
  user :: "string option"
  password :: "string option"

text \<open>
  What the identity provider's \<open>getToken\<close> resolves to: the token string and
  \<open>expiresOnTimestamp\<close> in milliseconds.
\<close>

datatype access_token = AccessToken string int

text \<open>The object \<open>createSqlConfig\<close> returns: \<open>{ config, token?, expiresOn? }\<close>.\<close>

record sql_config_result =
  config :: sql_config
  token :: "string option"
  expiresOn :: "js_date option"

text \<open>The connection pool object of the driver, with its \<open>connected\<close> property.\<close>

record sql_pool =
  pool_id :: nat
  connected :: bool

text \<open>
  What the outside world answers during one call of \<open>ensureSqlConnection\<close>:
  \<open>Date.now()\<close> at the validity check, the outcome of \<open>credential.getToken\<close>
  (a rejection, or the token object, which the code allows to be null),
  \<open>Date.now()\<close> when the default expiry is computed, and the outcome of
  \<open>sql.connect(config)\<close>.
\<close>

record world =
  now :: int
  getToken :: "js_error + access_token option"
  now_at_issue :: int
  connect :: "sql_config \<Rightarrow> js_error + sql_pool"

text \<open>
  The arguments of a tool call are a JSON object, or absent (\<open>None\<close>). An object is
  a list of its properties, each key once.
\<close>

datatype jsval =
    JNull
  | JBool bool
  | JNumber int
  | JString string
  | JArray "jsval list"
  | JObject "(string \<times> jsval) list"

type_synonym tool_args = "(string \<times> jsval) list option"

text \<open>
  The calls that leave the process, in the order they are made: the token request,
  closing a pool, \<open>sql.connect\<close>, and the body of the named tool on its arguments
  (which is where statements are sent to the database). \<open>console.log\<close> and
  \<open>console.error\<close> are not recorded.
\<close>

datatype effect =
    AcquireToken
  | ClosePool sql_pool
  | SqlConnect sql_config
  | ToolBody string tool_args

subsection \<open>\<open>createSqlConfig\<close>\<close>

text \<open>
  \<open>authType_of\<close> is \<open>process.env.AUTH_TYPE?.toLowerCase() || "azure"\<close>, which both
  \<open>createSqlConfig\<close> and \<open>ensureSqlConnection\<close> compute first. The \<open>switch\<close> on it
  is a chain of tests in the order of its cases, with the \<open>default\<close> case last. In
  the test \<open>!SQL_USERNAME || !SQL_PASSWORD\<close> the right operand is looked at only when
  the left one is false.
\<close>

definition authType_of :: "env \<Rightarrow> string" where
  "authType_of e =
     (case e ''AUTH_TYPE'' of
        None \<Rightarrow> ''azure''
      | Some s \<Rightarrow> if toLowerCase s = [] then ''azure'' else toLowerCase s)"

definition baseConfig :: "env \<Rightarrow> sql_config" where
  "baseConfig e =
     (let trustCert =
            (case e ''TRUST_SERVER_CERTIFICATE'' of
               None \<Rightarrow> False
             | Some s \<Rightarrow> toLowerCase s = ''true'');
          timeout =
            (case e ''CONNECTION_TIMEOUT'' of
               None \<Rightarrow> Some 30
             | Some s \<Rightarrow> if s = [] then Some 30 else parseInt s)
      in \<lparr> server = e ''SERVER_NAME'',
           database = e ''DATABASE_NAME'',
           options = \<lparr> encrypt = True, trustServerCertificate = trustCert,
                       enableArithAbort = None \<rparr>,
           connectionTimeout = map_option (\<lambda>n. n * 1000) timeout,
           authentication = None,
           user = None,
           password = None \<rparr>)"

definition createSqlConfig ::
  "env \<Rightarrow> world \<Rightarrow> (js_error + sql_config_result) \<times> effect list" where
  "createSqlConfig e w =
     (let authType = authType_of e in
      if authType = ''windows'' \<or> authType = ''ntlm'' then
        (let windowsConfig =
               (baseConfig e)
                 \<lparr> options :=
                     \<lparr> encrypt =
                         (case e ''SERVER_NAME'' of
                            None \<Rightarrow> False
                          | Some s \<Rightarrow>
                              if includes_str s ''database.windows.net'' then True else False),
                       trustServerCertificate = True,
                       enableArithAbort = Some True \<rparr> \<rparr>;
             windowsConfig' =
               (case (e ''WINDOWS_USERNAME'', e ''WINDOWS_PASSWORD'') of
                  (Some u, Some p) \<Rightarrow>
                    if u \<noteq> [] \<and> p \<noteq> []
                    then windowsConfig
                           \<lparr> authentication :=
                               Some (Ntlm (or_empty (e ''WINDOWS_DOMAIN'')) u p) \<rparr>
                    else windowsConfig
                | _ \<Rightarrow> windowsConfig)
         in (Inr \<lparr> config = windowsConfig', token = None, expiresOn = None \<rparr>, []))
      else if authType = ''sql'' \<or> authType = ''sqlserver'' then
        (if (if truthy (e ''SQL_USERNAME'') then \<not> truthy (e ''SQL_PASSWORD'') else True)
         then (Inl (JsError ''Error''
                 ''SQL_USERNAME and SQL_PASSWORD environment variables are required for SQL Server authentication''),
               [])
         else (Inr \<lparr> config = (baseConfig e)
                               \<lparr> user := e ''SQL_USERNAME'',
                                 password := e ''SQL_PASSWORD'' \<rparr>,
                     token = None, expiresOn = None \<rparr>, []))
      else
        (case getToken w of
           Inl err \<Rightarrow> (Inl err, [AcquireToken])
         | Inr accessToken \<Rightarrow>
             (let tok = (case accessToken of
                           None \<Rightarrow> None
                         | Some (AccessToken t x) \<Rightarrow> Some t);
                  expires =
                    (case accessToken of
                       None \<Rightarrow> new_Date (now_at_issue w + 30 * 60 * 1000)
                     | Some (AccessToken t x) \<Rightarrow>
                         if x \<noteq> 0 then new_Date x
                         else new_Date (now_at_issue w + 30 * 60 * 1000))
              in (Inr \<lparr> config = (baseConfig e)
                                    \<lparr> authentication :=
                                        Some (AzureActiveDirectoryAccessToken tok) \<rparr>,
                          token = tok,
                          expiresOn = Some expires \<rparr>,
                  [AcquireToken]))))"

section \<open>The connection shared by all tool calls\<close>

text \<open>
  The three module-level variables of \<open>index.ts\<close>. \<open>globalSqlPool\<close> refers to a pool
  object; its \<open>connected\<close> property is kept with it.
\<close>

record globals =
  globalSqlPool :: "sql_pool option"
  globalAccessToken :: "string option"
  globalTokenExpiresOn :: "js_date option"

text \<open>The test \<open>globalSqlPool && globalSqlPool.connected\<close>.\<close>

definition pool_connected :: "globals \<Rightarrow> bool" where
  "pool_connected g = (case globalSqlPool g of None \<Rightarrow> False | Some p \<Rightarrow> connected p)"

text \<open>
  \<open>if (globalSqlPool && globalSqlPool.connected) await globalSqlPool.close()\<close>.
  Closing a connected pool of the driver marks it as not connected and resolves; the
  variable keeps referring to the closed pool.
\<close>

definition close_old_pool :: "globals \<Rightarrow> globals \<times> effect list" where
  "close_old_pool g =
     (case globalSqlPool g of
        None \<Rightarrow> (g, [])
      | Some p \<Rightarrow>
          if connected p
          then (g\<lparr> globalSqlPool := Some (p\<lparr> connected := False \<rparr>) \<rparr>, [ClosePool p])
          else (g, []))"

text \<open>
  \<open>ensureSqlConnection\<close> returns the outcome (\<open>Inl\<close> for a thrown error), the
  variables as the call leaves them, and the outside calls it made. In the branch for
  the other authentication types the \<open>catch\<close> block logs and throws the error again,
  so the error of the \<open>try\<close> block is the error of the call.
\<close>

definition ensureSqlConnection ::
  "env \<Rightarrow> world \<Rightarrow> globals \<Rightarrow> (js_error + unit) \<times> globals \<times> effect list" where
  "ensureSqlConnection e w g =
     (let authType = authType_of e in
      if authType \<noteq> ''azure'' then
        (if pool_connected g then (Inr (), g, [])
         else
           (case createSqlConfig e w of
              (Inl err, tr) \<Rightarrow> (Inl err, g, tr)
            | (Inr r, tr) \<Rightarrow>
                (case close_old_pool g of
                   (g1, tr1) \<Rightarrow>
                     (case connect w (config r) of
                        Inl err \<Rightarrow> (Inl err, g1, tr @ tr1 @ [SqlConnect (config r)])
                      | Inr p \<Rightarrow>
                          (Inr (), g1\<lparr> globalSqlPool := Some p \<rparr>,
                           tr @ tr1 @ [SqlConnect (config r)])))))
      else if pool_connected g \<and> truthy (globalAccessToken g) \<and>
              (case globalTokenExpiresOn g of
                 None \<Rightarrow> False
               | Some d \<Rightarrow> date_gt d (new_Date (now w + 2 * 60 * 1000)))
      then (Inr (), g, [])
      else
        (case createSqlConfig e w of
           (Inl err, tr) \<Rightarrow> (Inl err, g, tr)
         | (Inr r, tr) \<Rightarrow>
             (case close_old_pool
                     (g\<lparr> globalAccessToken := (if truthy (token r) then token r else None),
                        globalTokenExpiresOn := expiresOn r \<rparr>) of
                (g1, tr1) \<Rightarrow>
                  (case connect w (config r) of
                     Inl err \<Rightarrow> (Inl err, g1, tr @ tr1 @ [SqlConnect (config r)])
                   | Inr p \<Rightarrow>
                       (Inr (), g1\<lparr> globalSqlPool := Some p \<rparr>,
                        tr @ tr1 @ [SqlConnect (config r)])))))"

section \<open>Tools and request handlers\<close>

text \<open>\<open>typeof v === "string"\<close>, for a property that may be missing.\<close>

fun is_string :: "jsval option \<Rightarrow> bool" where
  "is_string (Some (JString s)) = True"
| "is_string _ = False"

text \<open>
  The tool classes are imported from \<open>./tools/*.js\<close>; the handlers use a tool's
  \<open>name\<close> and its \<open>run\<close> method only, so a tool is a parameter here: its name and
  the outcome of its body on the arguments (\<open>Inl\<close> when it throws, with the value
  thrown).
\<close>

record 'r tool =
  name :: string
  run :: "tool_args \<Rightarrow> js_thrown + 'r"

record 'r tools =
  updateDataTool :: "'r tool"
  insertDataTool :: "'r tool"
  readDataTool :: "'r tool"
  createTableTool :: "'r tool"
  createIndexTool :: "'r tool"
  listTableTool :: "'r tool"
  dropTableTool :: "'r tool"
  describeTableTool :: "'r tool"

text \<open>
  \<open>wrapToolRun\<close> replaces a tool's \<open>run\<close> by: await \<open>ensureSqlConnection()\<close>, then
  the original \<open>run\<close> on the same arguments. It is applied to each of the eight tools,
  so this is the \<open>run\<close> the call handler reaches.
\<close>

definition wrapToolRun ::
  "'r tool \<Rightarrow> env \<Rightarrow> world \<Rightarrow> globals \<Rightarrow> tool_args \<Rightarrow>
     (js_thrown + 'r) \<times> globals \<times> effect list" where
  "wrapToolRun t e w g args =
     (case ensureSqlConnection e w g of
        (Inl err, g', tr) \<Rightarrow> (Inl (Printable err), g', tr)
      | (Inr u, g', tr) \<Rightarrow> (run t args, g', tr @ [ToolBody (name t) args]))"

text \<open>The tools that \<open>wrapToolRun\<close> is applied to, in the order of the source's array.\<close>

definition wrapped_tools :: "'r tools \<Rightarrow> 'r tool list" where
  "wrapped_tools ts =
     [insertDataTool ts, readDataTool ts, updateDataTool ts, createTableTool ts,
      createIndexTool ts, dropTableTool ts, listTableTool ts, describeTableTool ts]"

text \<open>
  The response the transport gets: \<open>{ content: [{ type, text }], isError? }\<close>. The
  fields \<open>type\<close> and \<open>text\<close> of a content item are \<open>ctype\<close> and \<open>ctext\<close>;
  \<open>isError = None\<close> is a response without that property.
\<close>

record content_item =
  ctype :: string
  ctext :: "string option"

record envelope =
  content :: "content_item list"
  isError :: "bool option"

subsection \<open>Listing the tools\<close>

definition isReadOnly :: "env \<Rightarrow> bool" where
  "isReadOnly e = (e ''READONLY'' = Some ''true'')"

definition ListToolsRequest_handler :: "env \<Rightarrow> 'r tools \<Rightarrow> 'r tool list" where
  "ListToolsRequest_handler e ts =
     (if isReadOnly e
      then [listTableTool ts, readDataTool ts, describeTableTool ts]
      else [insertDataTool ts, readDataTool ts, describeTableTool ts, updateDataTool ts,
            createTableTool ts, createIndexTool ts, dropTableTool ts, listTableTool ts])"

subsection \<open>Calling a tool\<close>

text \<open>
  A \<open>case\<close> of the \<open>switch\<close> either assigns \<open>result\<close> and breaks, or returns a
  response at once.
\<close>

datatype 'r switch_exit = Break 'r | Return envelope

definition run_and_break ::
  "(js_thrown + 'r) \<times> globals \<times> effect list \<Rightarrow>
     (js_thrown + 'r switch_exit) \<times> globals \<times> effect list" where
  "run_and_break x =
     (case x of
        (Inl err, g', tr) \<Rightarrow> (Inl err, g', tr)
      | (Inr result, g', tr) \<Rightarrow> (Inr (Break result), g', tr))"

definition CallTool_switch ::
  "'r tools \<Rightarrow> env \<Rightarrow> world \<Rightarrow> globals \<Rightarrow> string \<Rightarrow> tool_args \<Rightarrow>
     (js_thrown + 'r switch_exit) \<times> globals \<times> effect list" where
  "CallTool_switch ts e w g toolName args =
     (if toolName = name (insertDataTool ts) then
        run_and_break (wrapToolRun (insertDataTool ts) e w g args)
      else if toolName = name (readDataTool ts) then
        run_and_break (wrapToolRun (readDataTool ts) e w g args)
      else if toolName = name (updateDataTool ts) then
        run_and_break (wrapToolRun (updateDataTool ts) e w g args)
      else if toolName = name (createTableTool ts) then
        run_and_break (wrapToolRun (createTableTool ts) e w g args)
      else if toolName = name (createIndexTool ts) then
        run_and_break (wrapToolRun (createIndexTool ts) e w g args)
      else if toolName = name (listTableTool ts) then
        run_and_break (wrapToolRun (listTableTool ts) e w g args)
      else if toolName = name (dropTableTool ts) then
        run_and_break (wrapToolRun (dropTableTool ts) e w g args)
      else if toolName = name (describeTableTool ts) then
        (if (case args of
               None \<Rightarrow> True
             | Some obj \<Rightarrow> \<not> is_string (map_of obj ''tableName''))
         then (Inr (Return
                 \<lparr> content =
                     [\<lparr> ctype = ''text'',
                        ctext = Some ''Missing or invalid 'tableName' argument for describe_table tool.'' \<rparr>],
                   isError = Some True \<rparr>), g, [])
         else run_and_break (wrapToolRun (describeTableTool ts) e w g args))
      else
        (Inr (Return
           \<lparr> content = [\<lparr> ctype = ''text'', ctext = Some (''Unknown tool: '' @ toolName) \<rparr>],
             isError = Some True \<rparr>), g, []))"

text \<open>
  The \<open>try\<close> block: the \<open>switch\<close>, then the success response around
  \<open>JSON.stringify(result, null, 2)\<close>. \<open>stringify\<close> stands for that call on the
  tools' result type: it can throw (a \<open>TypeError\<close> of its own, or what a \<open>toJSON\<close>
  method throws), and it gives \<open>undefined\<close> (\<open>None\<close>) for a value that has no JSON
  text.
\<close>

definition CallTool_try ::
  "('r \<Rightarrow> js_thrown + string option) \<Rightarrow> 'r tools \<Rightarrow> env \<Rightarrow> world \<Rightarrow> globals \<Rightarrow>
     string \<Rightarrow> tool_args \<Rightarrow> (js_thrown + envelope) \<times> globals \<times> effect list" where
  "CallTool_try stringify ts e w g toolName args =
     (case CallTool_switch ts e w g toolName args of
        (Inl err, g', tr) \<Rightarrow> (Inl err, g', tr)
      | (Inr (Return response), g', tr) \<Rightarrow> (Inr response, g', tr)
      | (Inr (Break result), g', tr) \<Rightarrow>
          (case stringify result of
             Inl err \<Rightarrow> (Inl err, g', tr)
           | Inr s \<Rightarrow>
               (Inr \<lparr> content = [\<lparr> ctype = ''text'', ctext = s \<rparr>], isError = None \<rparr>,
                g', tr)))"

text \<open>
  The handler: the \<open>try\<close> block, and the \<open>catch\<close> block on what it throws. The
  \<open>catch\<close> block builds its text with \<open>`Error occurred: ${error}`\<close>; when that
  interpolation throws, nothing catches it and the handler's promise rejects (\<open>Inl\<close>).
\<close>

definition CallToolRequest_handler ::
  "('r \<Rightarrow> js_thrown + string option) \<Rightarrow> 'r tools \<Rightarrow> env \<Rightarrow> world \<Rightarrow> globals \<Rightarrow>
     string \<Rightarrow> tool_args \<Rightarrow> (js_error + envelope) \<times> globals \<times> effect list" where
  "CallToolRequest_handler stringify ts e w g toolName args =
     (case CallTool_try stringify ts e w g toolName args of
        (Inl error, g', tr) \<Rightarrow>
          (case template_literal error of
             Inl typeError \<Rightarrow> (Inl typeError, g', tr)
           | Inr s \<Rightarrow>
               (Inr \<lparr> content =
                        [\<lparr> ctype = ''text'', ctext = Some (''Error occurred: '' @ s) \<rparr>],
                      isError = Some True \<rparr>, g', tr))
      | (Inr response, g', tr) \<Rightarrow> (Inr response, g', tr))"

section \<open>Measures on a trace, and example inputs\<close>



text \<open>The variables as the module initialises them: all three are \<open>null\<close>.\<close>

definition initial_globals :: globals where
  "initial_globals =
     \<lparr> globalSqlPool = None, globalAccessToken = None, globalTokenExpiresOn = None \<rparr>"

text \<open>
  Example worlds. In \<open>world_up\<close> the identity provider issues a token that expires
  at 5000000 ms and the server accepts the connection; in \<open>world_down\<close> the server
  refuses it.
\<close>

definition world_up :: world where
  "world_up =
     \<lparr> now = 1000000,
       getToken = Inr (Some (AccessToken ''tok'' 5000000)),
       now_at_issue = 1000500,
       connect = (\<lambda>c. Inr \<lparr> pool_id = 1, connected = True \<rparr>) \<rparr>"

definition world_down :: world where
  "world_down =
     \<lparr> now = 1000000,
       getToken = Inr (Some (AccessToken ''tok'' 5000000)),
       now_at_issue = 1000500,
       connect = (\<lambda>c. Inl (JsError ''ConnectionError'' ''Failed to connect'')) \<rparr>"

text \<open>
  An example tool set. Every body returns a fixed text, whatever its arguments, except
  the body of the create-index tool, which throws.
\<close>

definition example_tools :: "string tools" where
  "example_tools =
     \<lparr> updateDataTool = \<lparr> name = ''update_data'', run = (\<lambda>a. Inr ''updated'') \<rparr>,
       insertDataTool = \<lparr> name = ''insert_data'', run = (\<lambda>a. Inr ''inserted'') \<rparr>,
       readDataTool = \<lparr> name = ''read_data'', run = (\<lambda>a. Inr ''rows'') \<rparr>,
       createTableTool = \<lparr> name = ''create_table'', run = (\<lambda>a. Inr ''created'') \<rparr>,
       createIndexTool =
         \<lparr> name = ''create_index'',
           run = (\<lambda>a. Inl (Printable (JsError ''RequestError'' ''Invalid column name''))) \<rparr>,
       listTableTool = \<lparr> name = ''list_table'', run = (\<lambda>a. Inr ''tables'') \<rparr>,
       dropTableTool = \<lparr> name = ''drop_table'', run = (\<lambda>a. Inr ''dropped'') \<rparr>,
       describeTableTool = \<lparr> name = ''describe_table'', run = (\<lambda>a. Inr ''columns'') \<rparr> \<rparr>"

definition example_stringify :: "string \<Rightarrow> js_thrown + string option" where
  "example_stringify r = Inr (Some r)"


text \<open>Example configurations.\<close>

definition env_sql :: env where
  "env_sql =
     [''AUTH_TYPE'' \<mapsto> ''sql'', ''SERVER_NAME'' \<mapsto> ''localhost'',
      ''DATABASE_NAME'' \<mapsto> ''db'', ''SQL_USERNAME'' \<mapsto> ''sa'', ''SQL_PASSWORD'' \<mapsto> ''pw'']"

definition env_azure :: env where
  "env_azure =
     [''AUTH_TYPE'' \<mapsto> ''azure'', ''SERVER_NAME'' \<mapsto> ''srv.database.windows.net'',
      ''DATABASE_NAME'' \<mapsto> ''db'']"

definition env_windows_local :: env where
  "env_windows_local =
     [''AUTH_TYPE'' \<mapsto> ''windows'', ''SERVER_NAME'' \<mapsto> ''localhost'',
      ''DATABASE_NAME'' \<mapsto> ''db'', ''ENCRYPT'' \<mapsto> ''true'',
      ''TRUST_SERVER_CERTIFICATE'' \<mapsto> ''false'']"

definition env_windows_cloud :: env where
  "env_windows_cloud =
     [''AUTH_TYPE'' \<mapsto> ''Windows'', ''SERVER_NAME'' \<mapsto> ''srv.database.windows.net'',
      ''DATABASE_NAME'' \<mapsto> ''db'', ''ENCRYPT'' \<mapsto> ''false'']"

definition env_readonly :: env where
  "env_readonly =
     [''AUTH_TYPE'' \<mapsto> ''sql'', ''SERVER_NAME'' \<mapsto> ''localhost'',
      ''DATABASE_NAME'' \<mapsto> ''db'', ''SQL_USERNAME'' \<mapsto> ''sa'', ''SQL_PASSWORD'' \<mapsto> ''pw'',
      ''READONLY'' \<mapsto> ''true'']"

definition env_default :: env where
  "env_default =
     [''SERVER_NAME'' \<mapsto> ''srv.database.windows.net'', ''DATABASE_NAME'' \<mapsto> ''db'']"

definition env_unrecognised :: env where
  "env_unrecognised =
     [''AUTH_TYPE'' \<mapsto> ''kerberos'', ''SERVER_NAME'' \<mapsto> ''srv.database.windows.net'',
      ''DATABASE_NAME'' \<mapsto> ''db'']"

text \<open>A state with a connected pool, and one with a connected pool and a token lease.\<close>

definition connected_globals :: globals where
  "connected_globals =
     \<lparr> globalSqlPool = Some \<lparr> pool_id = 7, connected = True \<rparr>,
       globalAccessToken = None, globalTokenExpiresOn = None \<rparr>"

definition leased_globals :: "int \<Rightarrow> globals" where
  "leased_globals expiry =
     \<lparr> globalSqlPool = Some \<lparr> pool_id = 7, connected = True \<rparr>,
       globalAccessToken = Some ''tok0'', globalTokenExpiresOn = Some (Date expiry) \<rparr>"

section \<open>Properties of the model\<close>

subsection \<open>Strings\<close>

text \<open>\<open>includes_str\<close> is the substring test.\<close>

lemma startsWith_iff: "startsWith s pat \<longleftrightarrow> (\<exists>ss. s = pat @ ss)"
  unfolding startsWith_def
  by (metis append_eq_conv_conj append_take_drop_id)

lemma includes_str_iff: "includes_str s pat \<longleftrightarrow> (\<exists>ps ss. s = ps @ pat @ ss)"
proof (induction s)
  case Nil
  show ?case by auto
next
  case (Cons c cs)
  show ?case
  proof
    assume "includes_str (c # cs) pat"
    then consider "startsWith (c # cs) pat" | "includes_str cs pat" by auto
    then show "\<exists>ps ss. c # cs = ps @ pat @ ss"
    proof cases
      case 1
      then obtain ss where "c # cs = pat @ ss" by (auto simp: startsWith_iff)
      then have "c # cs = [] @ pat @ ss" by simp
      then show ?thesis by blast
    next
      case 2
      then obtain ps ss where "cs = ps @ pat @ ss" using Cons.IH by blast
      then have "c # cs = (c # ps) @ pat @ ss" by simp
      then show ?thesis by blast
    qed
  next
    assume "\<exists>ps ss. c # cs = ps @ pat @ ss"
    then obtain ps ss where eq: "c # cs = ps @ pat @ ss" by blast
    show "includes_str (c # cs) pat"
    proof (cases ps)
      case Nil
      with eq have "startsWith (c # cs) pat" by (auto simp: startsWith_iff)
      then show ?thesis by simp
    next
      case (Cons p ps')
      with eq have "cs = ps' @ pat @ ss" by simp
      then have "includes_str cs pat" using Cons.IH by blast
      then show ?thesis by simp
    qed
  qed
qed

subsection \<open>Traces, credential resolution and closing\<close>




text \<open>
  Credential resolution treats every name other than \<open>windows\<close>, \<open>ntlm\<close>, \<open>sql\<close>
  and \<open>sqlserver\<close> as the federated mode: it asks for a token.
\<close>

lemma createSqlConfig_fallback:
  assumes "authType_of e \<noteq> ''windows''" "authType_of e \<noteq> ''ntlm''"
    "authType_of e \<noteq> ''sql''" "authType_of e \<noteq> ''sqlserver''"
  shows "snd (createSqlConfig e w) = [AcquireToken]"
  using assms
  by (simp add: createSqlConfig_def Let_def split: option.splits sum.splits)

lemma createSqlConfig_azure_trace:
  "authType_of e = ''azure'' \<Longrightarrow> snd (createSqlConfig e w) = [AcquireToken]"
  by (simp add: createSqlConfig_def Let_def split: option.splits sum.splits)


lemma close_old_pool_idle: "\<not> pool_connected g \<Longrightarrow> close_old_pool g = (g, [])"
  by (cases "globalSqlPool g") (simp_all add: close_old_pool_def pool_connected_def)


lemma close_old_pool_connected:
  "globalSqlPool g = Some p \<Longrightarrow> connected p \<Longrightarrow>
   close_old_pool g = (g\<lparr> globalSqlPool := Some (p\<lparr> connected := False \<rparr>) \<rparr>, [ClosePool p])"
  by (simp add: close_old_pool_def)

subsection \<open>The two ways through \<open>ensureSqlConnection\<close>\<close>

text \<open>
  A call either returns at once, leaving the variables as they are and calling nothing,
  or it resolves the credentials again and opens a connection.
\<close>

lemma ensure_reuse_other:
  "authType_of e \<noteq> ''azure'' \<Longrightarrow> pool_connected g \<Longrightarrow>
   ensureSqlConnection e w g = (Inr (), g, [])"
  by (simp add: ensureSqlConnection_def)

lemma ensure_reuse_azure:
  "authType_of e = ''azure'' \<Longrightarrow> pool_connected g \<Longrightarrow> truthy (globalAccessToken g) \<Longrightarrow>
   globalTokenExpiresOn g = Some d \<Longrightarrow> date_gt d (new_Date (now w + 120000)) \<Longrightarrow>
   ensureSqlConnection e w g = (Inr (), g, [])"
  by (simp add: ensureSqlConnection_def)

lemma ensure_fresh_other:
  assumes "authType_of e \<noteq> ''azure''" "\<not> pool_connected g"
  shows "ensureSqlConnection e w g =
     (case createSqlConfig e w of
        (Inl err, tr) \<Rightarrow> (Inl err, g, tr)
      | (Inr r, tr) \<Rightarrow>
          (case connect w (config r) of
             Inl err \<Rightarrow> (Inl err, g, tr @ [SqlConnect (config r)])
           | Inr p \<Rightarrow> (Inr (), g\<lparr> globalSqlPool := Some p \<rparr>, tr @ [SqlConnect (config r)])))"
  using assms
  by (simp add: ensureSqlConnection_def close_old_pool_idle split: prod.splits sum.splits)

lemma ensure_fresh_azure:
  assumes "authType_of e = ''azure''"
    and "\<not> (pool_connected g \<and> truthy (globalAccessToken g) \<and>
            (case globalTokenExpiresOn g of
               None \<Rightarrow> False
             | Some d \<Rightarrow> date_gt d (new_Date (now w + 120000))))"
  shows "ensureSqlConnection e w g =
     (case createSqlConfig e w of
        (Inl err, tr) \<Rightarrow> (Inl err, g, tr)
      | (Inr r, tr) \<Rightarrow>
          (case close_old_pool
                  (g\<lparr> globalAccessToken := (if truthy (token r) then token r else None),
                     globalTokenExpiresOn := expiresOn r \<rparr>) of
             (g1, tr1) \<Rightarrow>
               (case connect w (config r) of
                  Inl err \<Rightarrow> (Inl err, g1, tr @ tr1 @ [SqlConnect (config r)])
                | Inr p \<Rightarrow>
                    (Inr (), g1\<lparr> globalSqlPool := Some p \<rparr>,
                     tr @ tr1 @ [SqlConnect (config r)]))))"
  using assms
  by (auto simp add: ensureSqlConnection_def split: prod.splits sum.splits option.splits)






subsection \<open>The call handler\<close>

lemma switch_plain_tool:
  assumes d: "distinct (map name (wrapped_tools ts))"
    and t: "t \<in> set (butlast (wrapped_tools ts))"
  shows "CallTool_switch ts e w g (name t) args = run_and_break (wrapToolRun t e w g args)"
  using d t by (auto simp: wrapped_tools_def CallTool_switch_def)

lemma switch_describe_valid:
  assumes d: "distinct (map name (wrapped_tools ts))"
    and v: "args = Some obj" "is_string (map_of obj ''tableName'')"
  shows "CallTool_switch ts e w g (name (describeTableTool ts)) args =
           run_and_break (wrapToolRun (describeTableTool ts) e w g args)"
  using d v by (auto simp: wrapped_tools_def CallTool_switch_def)

lemma switch_describe_invalid:
  assumes d: "distinct (map name (wrapped_tools ts))"
    and v: "case args of None \<Rightarrow> True | Some obj \<Rightarrow> \<not> is_string (map_of obj ''tableName'')"
  shows "CallTool_switch ts e w g (name (describeTableTool ts)) args =
           (Inr (Return
                 \<lparr> content =
                     [\<lparr> ctype = ''text'',
                        ctext = Some ''Missing or invalid 'tableName' argument for describe_table tool.'' \<rparr>],
                   isError = Some True \<rparr>), g, [])"
  using d v by (auto simp: wrapped_tools_def CallTool_switch_def)

lemma switch_registered_tool:
  assumes d: "distinct (map name (wrapped_tools ts))"
    and t: "t \<in> set (wrapped_tools ts)"
    and v: "t = describeTableTool ts \<Longrightarrow>
              \<exists>obj. args = Some obj \<and> is_string (map_of obj ''tableName'')"
  shows "CallTool_switch ts e w g (name t) args = run_and_break (wrapToolRun t e w g args)"
proof (cases "t \<in> set (butlast (wrapped_tools ts))")
  case True
  with d show ?thesis by (rule switch_plain_tool)
next
  case False
  with t have "t = describeTableTool ts" by (auto simp: wrapped_tools_def)
  with v d show ?thesis by (auto intro: switch_describe_valid)
qed

text \<open>
  When the \<open>switch\<close> reaches a tool's \<open>run\<close>, the outcome is determined by the
  outcome of \<open>ensureSqlConnection\<close>, of the tool's body and of \<open>JSON.stringify\<close>,
  and for a thrown value by whether it converts to a string.
\<close>

lemma handler_after_run:
  assumes "CallTool_switch ts e w g toolName args = run_and_break (wrapToolRun t e w g args)"
  shows "CallToolRequest_handler stringify ts e w g toolName args =
     (case ensureSqlConnection e w g of
        (Inl err, g', tr) \<Rightarrow>
          (Inr \<lparr> content = [\<lparr> ctype = ''text'',
                               ctext = Some (''Error occurred: '' @ error_to_string err) \<rparr>],
                 isError = Some True \<rparr>, g', tr)
      | (Inr u, g', tr) \<Rightarrow>
          (case run t args of
             Inl error \<Rightarrow>
               (case template_literal error of
                  Inl typeError \<Rightarrow> (Inl typeError, g', tr @ [ToolBody (name t) args])
                | Inr s \<Rightarrow>
                    (Inr \<lparr> content = [\<lparr> ctype = ''text'',
                                         ctext = Some (''Error occurred: '' @ s) \<rparr>],
                           isError = Some True \<rparr>, g', tr @ [ToolBody (name t) args]))
           | Inr result \<Rightarrow>
               (case stringify result of
                  Inl error \<Rightarrow>
                    (case template_literal error of
                       Inl typeError \<Rightarrow> (Inl typeError, g', tr @ [ToolBody (name t) args])
                     | Inr s \<Rightarrow>
                         (Inr \<lparr> content = [\<lparr> ctype = ''text'',
                                              ctext = Some (''Error occurred: '' @ s) \<rparr>],
                                isError = Some True \<rparr>, g', tr @ [ToolBody (name t) args]))
                | Inr s \<Rightarrow>
                    (Inr \<lparr> content = [\<lparr> ctype = ''text'', ctext = s \<rparr>], isError = None \<rparr>,
                     g', tr @ [ToolBody (name t) args]))))"
  unfolding CallToolRequest_handler_def CallTool_try_def assms run_and_break_def wrapToolRun_def
  by (cases "ensureSqlConnection e w g" rule: prod_cases3)
     (auto split: sum.splits)

text \<open>
  What the \<open>catch\<close> block does with a value that converts to a string, and with a
  response of the \<open>try\<close> block.
\<close>

lemma handler_catch_printable:
  assumes "CallTool_try stringify ts e w g toolName args = (Inl (Printable err), g', tr)"
  shows "CallToolRequest_handler stringify ts e w g toolName args =
           (Inr \<lparr> content = [\<lparr> ctype = ''text'',
                      ctext = Some (''Error occurred: '' @ error_to_string err) \<rparr>],
                  isError = Some True \<rparr>, g', tr)"
  by (simp add: CallToolRequest_handler_def assms)

lemma handler_returns_response:
  assumes "CallTool_try stringify ts e w g toolName args = (Inr response, g', tr)"
  shows "CallToolRequest_handler stringify ts e w g toolName args = (Inr response, g', tr)"
  by (simp add: CallToolRequest_handler_def assms)

text \<open>The call handler does not read the \<open>READONLY\<close> variable.\<close>

lemma authType_of_READONLY: "authType_of (e(''READONLY'' := v)) = authType_of e"
  by (simp add: authType_of_def)

lemma baseConfig_READONLY: "baseConfig (e(''READONLY'' := v)) = baseConfig e"
  by (simp add: baseConfig_def)

lemma createSqlConfig_READONLY: "createSqlConfig (e(''READONLY'' := v)) w = createSqlConfig e w"
proof -
  have l: "(e(''READONLY'' := v)) ''SERVER_NAME'' = e ''SERVER_NAME''"
    "(e(''READONLY'' := v)) ''WINDOWS_USERNAME'' = e ''WINDOWS_USERNAME''"
    "(e(''READONLY'' := v)) ''WINDOWS_PASSWORD'' = e ''WINDOWS_PASSWORD''"
    "(e(''READONLY'' := v)) ''WINDOWS_DOMAIN'' = e ''WINDOWS_DOMAIN''"
    "(e(''READONLY'' := v)) ''SQL_USERNAME'' = e ''SQL_USERNAME''"
    "(e(''READONLY'' := v)) ''SQL_PASSWORD'' = e ''SQL_PASSWORD''"
    by simp_all
  show ?thesis
    unfolding createSqlConfig_def authType_of_READONLY baseConfig_READONLY l ..
qed

lemma ensureSqlConnection_READONLY:
  "ensureSqlConnection (e(''READONLY'' := v)) w g = ensureSqlConnection e w g"
  by (simp add: ensureSqlConnection_def authType_of_READONLY createSqlConfig_READONLY)

lemma CallToolRequest_handler_READONLY:
  "CallToolRequest_handler stringify ts (e(''READONLY'' := v)) w g toolName args =
   CallToolRequest_handler stringify ts e w g toolName args"
  by (simp add: CallToolRequest_handler_def CallTool_try_def CallTool_switch_def
        wrapToolRun_def ensureSqlConnection_READONLY)

subsection \<open>The example inputs\<close>

lemma example_names: "distinct (map name (wrapped_tools example_tools))"
  by (simp add: wrapped_tools_def example_tools_def)

lemma authType_env_sql: "authType_of env_sql = ''sql''"
  by (simp add: authType_of_def env_sql_def toLowerCase_def lower_char_def)


lemma ensure_env_sql_connected:
  "ensureSqlConnection env_sql w connected_globals = (Inr (), connected_globals, [])"
  by (simp add: ensureSqlConnection_def authType_env_sql pool_connected_def connected_globals_def)

lemma authType_env_readonly: "authType_of env_readonly = ''sql''"
  by (simp add: authType_of_def env_readonly_def toLowerCase_def lower_char_def)

lemma createSqlConfig_env_readonly:
  "createSqlConfig env_readonly w =
      (Inr \<lparr> config = (baseConfig env_readonly) \<lparr> user := Some ''sa'', password := Some ''pw'' \<rparr>,
             token = None, expiresOn = None \<rparr>, [])"
  by (simp add: createSqlConfig_def authType_env_readonly) (simp add: env_readonly_def)

section \<open>The connection manager\<close>

text \<open>
  C4. Federated mode is \<open>authType = "azure"\<close>. Take a connected pool and a stored token.
  If the stored expiry is exactly 120000 ms (the two minute margin) after the clock
  reading of the call, the call does not reuse the connection: its first outside call
  asks for a new token, and when the token is issued and the server accepts, the old
  pool is closed, a new one is opened and the new token and expiry are stored. If the
  stored expiry is one millisecond later, the call returns at once: nothing is called
  and the variables are unchanged.
\<close>

theorem token_expiry_boundary:
  assumes azure: "authType_of e = ''azure''"
    and pool: "globalSqlPool g = Some p" "connected p"
    and tok: "truthy (globalAccessToken g)"
  shows "(\<exists>r g' tr.
            ensureSqlConnection e w (g\<lparr> globalTokenExpiresOn := Some (Date (now w + 120000)) \<rparr>)
              = (r, g', AcquireToken # tr)) \<and>
         (\<forall>r0 p'. fst (createSqlConfig e w) = Inr r0 \<longrightarrow> connect w (config r0) = Inr p' \<longrightarrow>
            ensureSqlConnection e w (g\<lparr> globalTokenExpiresOn := Some (Date (now w + 120000)) \<rparr>)
              = (Inr (),
                 \<lparr> globalSqlPool = Some p',
                   globalAccessToken = (if truthy (token r0) then token r0 else None),
                   globalTokenExpiresOn = expiresOn r0 \<rparr>,
                 [AcquireToken, ClosePool p, SqlConnect (config r0)])) \<and>
         (\<bar>now w + 120000\<bar> \<le> 8640000000000000 \<longrightarrow>
            ensureSqlConnection e w (g\<lparr> globalTokenExpiresOn := Some (Date (now w + 120001)) \<rparr>)
              = (Inr (), g\<lparr> globalTokenExpiresOn := Some (Date (now w + 120001)) \<rparr>, []))"
proof (intro conjI impI allI)
  let ?g = "g\<lparr> globalTokenExpiresOn := Some (Date (now w + 120000)) \<rparr>"
  have stale: "\<not> (pool_connected ?g \<and> truthy (globalAccessToken ?g) \<and>
            (case globalTokenExpiresOn ?g of
               None \<Rightarrow> False
             | Some d \<Rightarrow> date_gt d (new_Date (now w + 120000))))"
    by (simp add: new_Date_def)
  note unfold = ensure_fresh_azure [OF azure stale]
  obtain res tr0 where c: "createSqlConfig e w = (res, tr0)" by (cases "createSqlConfig e w")
  have tr0: "tr0 = [AcquireToken]"
    using createSqlConfig_azure_trace [OF azure, of w] c by simp
  show "\<exists>r g' tr. ensureSqlConnection e w ?g = (r, g', AcquireToken # tr)"
    unfolding unfold c tr0
    by (cases res) (auto split: prod.splits sum.splits)
  fix r0 p'
  assume r0: "fst (createSqlConfig e w) = Inr r0" and p': "connect w (config r0) = Inr p'"
  from r0 c have res: "res = Inr r0" by simp
  show "ensureSqlConnection e w ?g =
          (Inr (),
           \<lparr> globalSqlPool = Some p',
             globalAccessToken = (if truthy (token r0) then token r0 else None),
             globalTokenExpiresOn = expiresOn r0 \<rparr>,
           [AcquireToken, ClosePool p, SqlConnect (config r0)])"
    unfolding unfold c tr0 res
    using pool p' by (simp add: close_old_pool_def)
next
  let ?g = "g\<lparr> globalTokenExpiresOn := Some (Date (now w + 120001)) \<rparr>"
  assume "\<bar>now w + 120000\<bar> \<le> 8640000000000000"
  then have "date_gt (Date (now w + 120001)) (new_Date (now w + 120000))"
    by (simp add: new_Date_def)
  with azure pool tok show "ensureSqlConnection e w ?g = (Inr (), ?g, [])"
    by (intro ensure_reuse_azure) (simp_all add: pool_connected_def)
qed

theorem token_expiry_boundary_witness:
  "ensureSqlConnection env_azure world_up (leased_globals 1120000) =
     (Inr (),
      \<lparr> globalSqlPool = Some \<lparr> pool_id = 1, connected = True \<rparr>,
        globalAccessToken = Some ''tok'',
        globalTokenExpiresOn = Some (Date 5000000) \<rparr>,
      [AcquireToken, ClosePool \<lparr> pool_id = 7, connected = True \<rparr>,
       SqlConnect ((baseConfig env_azure)
         \<lparr> authentication := Some (AzureActiveDirectoryAccessToken (Some ''tok'')) \<rparr>)]) \<and>
   ensureSqlConnection env_azure world_up (leased_globals 1120001) =
     (Inr (), leased_globals 1120001, [])"
proof -
  have az: "authType_of env_azure = ''azure''"
    by (simp add: authType_of_def env_azure_def toLowerCase_def lower_char_def)
  have pool: "globalSqlPool (leased_globals 0) = Some \<lparr> pool_id = 7, connected = True \<rparr>"
    "connected \<lparr> pool_id = 7, connected = True \<rparr>"
    by (simp_all add: leased_globals_def)
  have tok: "truthy (globalAccessToken (leased_globals 0))"
    by (simp add: leased_globals_def)
  have cfg: "fst (createSqlConfig env_azure world_up) =
      Inr \<lparr> config = (baseConfig env_azure)
               \<lparr> authentication := Some (AzureActiveDirectoryAccessToken (Some ''tok'')) \<rparr>,
            token = Some ''tok'', expiresOn = Some (Date 5000000) \<rparr>"
    by (simp add: createSqlConfig_def az world_up_def new_Date_def Let_def)
  have l0: "(leased_globals 0)\<lparr> globalTokenExpiresOn := Some (Date (now world_up + 120000)) \<rparr>
      = leased_globals 1120000"
     "(leased_globals 0)\<lparr> globalTokenExpiresOn := Some (Date (now world_up + 120001)) \<rparr>
      = leased_globals 1120001"
    by (simp_all add: leased_globals_def world_up_def)
  have conn: "connect world_up c = Inr \<lparr> pool_id = 1, connected = True \<rparr>" for c
    by (simp add: world_up_def)
  have valid: "\<bar>now world_up + 120000\<bar> \<le> 8640000000000000" by (simp add: world_up_def)
  show ?thesis
    using token_expiry_boundary [OF az pool tok, of world_up] cfg conn valid
    unfolding l0 by simp
qed

text \<open>
  C5. After a call that succeeded, a second call made while the pool is still connected
  and, in federated mode, the stored token is non-empty and its expiry is more than
  120000 ms after the second call's clock reading, returns at once: it asks for no
  token, opens no connection and leaves the variables unchanged.
\<close>

theorem ensureSqlConnection_idempotent:
  assumes first: "ensureSqlConnection e w1 g0 = (Inr (), g1, tr1)"
    and still: "pool_connected g1"
    and lease: "authType_of e = ''azure'' \<Longrightarrow>
                  truthy (globalAccessToken g1) \<and>
                  (\<exists>d. globalTokenExpiresOn g1 = Some d \<and> date_gt d (new_Date (now w2 + 120000)))"
  shows "ensureSqlConnection e w2 g1 = (Inr (), g1, [])"
proof (cases "authType_of e = ''azure''")
  case True
  with lease obtain d where "truthy (globalAccessToken g1)"
    "globalTokenExpiresOn g1 = Some d" "date_gt d (new_Date (now w2 + 120000))" by blast
  with True still show ?thesis by (intro ensure_reuse_azure)
next
  case False
  with still show ?thesis by (intro ensure_reuse_other)
qed

theorem ensureSqlConnection_idempotent_witness:
  "ensureSqlConnection env_azure world_up initial_globals =
     (Inr (), leased_globals 5000000
                \<lparr> globalSqlPool := Some \<lparr> pool_id = 1, connected = True \<rparr>,
                  globalAccessToken := Some ''tok'' \<rparr>,
      [AcquireToken,
       SqlConnect ((baseConfig env_azure)
         \<lparr> authentication := Some (AzureActiveDirectoryAccessToken (Some ''tok'')) \<rparr>)]) \<and>
   ensureSqlConnection env_azure world_down
     (leased_globals 5000000
        \<lparr> globalSqlPool := Some \<lparr> pool_id = 1, connected = True \<rparr>,
          globalAccessToken := Some ''tok'' \<rparr>) =
     (Inr (), leased_globals 5000000
                \<lparr> globalSqlPool := Some \<lparr> pool_id = 1, connected = True \<rparr>,
                  globalAccessToken := Some ''tok'' \<rparr>, [])"
proof -
  let ?g1 = "leased_globals 5000000
                \<lparr> globalSqlPool := Some \<lparr> pool_id = 1, connected = True \<rparr>,
                  globalAccessToken := Some ''tok'' \<rparr>"
  have az: "authType_of env_azure = ''azure''"
    by (simp add: authType_of_def env_azure_def toLowerCase_def lower_char_def)
  have first: "ensureSqlConnection env_azure world_up initial_globals =
     (Inr (), ?g1,
      [AcquireToken,
       SqlConnect ((baseConfig env_azure)
         \<lparr> authentication := Some (AzureActiveDirectoryAccessToken (Some ''tok'')) \<rparr>)])"
    by (simp add: ensureSqlConnection_def createSqlConfig_def az world_up_def new_Date_def
          Let_def initial_globals_def leased_globals_def pool_connected_def close_old_pool_def)
  have still: "pool_connected ?g1" by (simp add: pool_connected_def leased_globals_def)
  have lease: "truthy (globalAccessToken ?g1) \<and>
      (\<exists>d. globalTokenExpiresOn ?g1 = Some d \<and> date_gt d (new_Date (now world_down + 120000)))"
    by (simp add: leased_globals_def world_down_def new_Date_def)
  show ?thesis
    using ensureSqlConnection_idempotent [OF first still lease] first by simp
qed



section \<open>Credential resolution\<close>

text \<open>
  C8, as the code has it. With \<open>authType\<close> \<open>windows\<close> or \<open>ntlm\<close>, credential
  resolution succeeds without any outside call, and the \<open>encrypt\<close> option of the
  configuration is true exactly when \<open>SERVER_NAME\<close> is set and contains
  \<open>database.windows.net\<close>. The option is a function of \<open>SERVER_NAME\<close> alone: no
  other variable of the configuration changes it.
\<close>

theorem createSqlConfig_windows_encrypt:
  assumes "authType_of e = ''windows'' \<or> authType_of e = ''ntlm''"
  shows "\<exists>r. createSqlConfig e w = (Inr r, []) \<and>
             encrypt (options (config r)) =
               (case e ''SERVER_NAME'' of
                  None \<Rightarrow> False
                | Some s \<Rightarrow> includes_str s ''database.windows.net'')"
  using assms
  by (auto simp: createSqlConfig_def Let_def split: option.splits)

theorem createSqlConfig_windows_encrypt_witness:
  "(authType_of env_windows_local = ''windows'' \<or> authType_of env_windows_local = ''ntlm'') \<and>
   (\<exists>r. createSqlConfig env_windows_local world_up = (Inr r, []) \<and>
        encrypt (options (config r)) = False)"
proof -
  have a: "authType_of env_windows_local = ''windows'' \<or> authType_of env_windows_local = ''ntlm''"
    by (simp add: authType_of_def env_windows_local_def toLowerCase_def lower_char_def)
  show ?thesis
    using createSqlConfig_windows_encrypt [OF a, of world_up] a
    by (simp add: env_windows_local_def startsWith_def)
qed

text \<open>
  C8 as stated says that the configuration can override this default. It cannot: a
  configuration for a local server that asks for encryption still gets
  \<open>encrypt = False\<close>, and one for a cloud server that asks for none still gets
  \<open>encrypt = True\<close>.
\<close>

theorem encrypt_override_ignored_counterexample:
  "map_sum id (\<lambda>r. encrypt (options (config r)))
     (fst (createSqlConfig env_windows_local world_up))
     = Inr False \<and>
   map_sum id (\<lambda>r. encrypt (options (config r)))
     (fst (createSqlConfig env_windows_cloud world_up))
     = Inr True"
  by (simp add: createSqlConfig_def authType_of_def env_windows_local_def env_windows_cloud_def
        toLowerCase_def lower_char_def startsWith_def Let_def)

text \<open>
  C9. With \<open>AUTH_TYPE=kerberos\<close>, a name that is none of \<open>windows\<close>, \<open>ntlm\<close>,
  \<open>sql\<close>, \<open>sqlserver\<close>, credential resolution falls back to the federated mode
  (it asks for a token and builds the access-token configuration), but
  \<open>ensureSqlConnection\<close> takes the branch without token management: with a connected
  pool and a lease that expired long ago it returns at once, where the same call with
  \<open>AUTH_TYPE\<close> unset closes the pool, takes a new token and connects again. From the
  initial state the first call connects with the token but stores no lease, and a call
  made long after that token's expiry still returns at once.
\<close>

theorem unrecognised_authType_not_federated:
  "authType_of env_unrecognised = ''kerberos'' \<and>
   createSqlConfig env_unrecognised world_up =
     (Inr \<lparr> config = (baseConfig env_unrecognised)
              \<lparr> authentication := Some (AzureActiveDirectoryAccessToken (Some ''tok'')) \<rparr>,
            token = Some ''tok'', expiresOn = Some (Date 5000000) \<rparr>, [AcquireToken]) \<and>
   ensureSqlConnection env_unrecognised world_up (leased_globals 0) =
     (Inr (), leased_globals 0, []) \<and>
   ensureSqlConnection env_default world_up (leased_globals 0) =
     (Inr (),
      \<lparr> globalSqlPool = Some \<lparr> pool_id = 1, connected = True \<rparr>,
        globalAccessToken = Some ''tok'',
        globalTokenExpiresOn = Some (Date 5000000) \<rparr>,
      [AcquireToken, ClosePool \<lparr> pool_id = 7, connected = True \<rparr>,
       SqlConnect ((baseConfig env_default)
         \<lparr> authentication := Some (AzureActiveDirectoryAccessToken (Some ''tok'')) \<rparr>)]) \<and>
   ensureSqlConnection env_unrecognised world_up initial_globals =
     (Inr (), initial_globals \<lparr> globalSqlPool := Some \<lparr> pool_id = 1, connected = True \<rparr> \<rparr>,
      [AcquireToken,
       SqlConnect ((baseConfig env_unrecognised)
         \<lparr> authentication := Some (AzureActiveDirectoryAccessToken (Some ''tok'')) \<rparr>)]) \<and>
   ensureSqlConnection env_unrecognised (world_up \<lparr> now := 9000000 \<rparr>)
       (initial_globals \<lparr> globalSqlPool := Some \<lparr> pool_id = 1, connected = True \<rparr> \<rparr>) =
     (Inr (), initial_globals \<lparr> globalSqlPool := Some \<lparr> pool_id = 1, connected = True \<rparr> \<rparr>, [])"
proof -
  have k: "authType_of env_unrecognised = ''kerberos''"
    by (simp add: authType_of_def env_unrecognised_def toLowerCase_def lower_char_def)
  have d: "authType_of env_default = ''azure''"
    by (simp add: authType_of_def env_default_def)
  have c: "createSqlConfig env_unrecognised world_up =
     (Inr \<lparr> config = (baseConfig env_unrecognised)
              \<lparr> authentication := Some (AzureActiveDirectoryAccessToken (Some ''tok'')) \<rparr>,
            token = Some ''tok'', expiresOn = Some (Date 5000000) \<rparr>, [AcquireToken])"
    by (simp add: createSqlConfig_def k world_up_def new_Date_def Let_def)
  have c': "createSqlConfig env_default world_up =
     (Inr \<lparr> config = (baseConfig env_default)
              \<lparr> authentication := Some (AzureActiveDirectoryAccessToken (Some ''tok'')) \<rparr>,
            token = Some ''tok'', expiresOn = Some (Date 5000000) \<rparr>, [AcquireToken])"
    by (simp add: createSqlConfig_def d world_up_def new_Date_def Let_def)
  have e1: "ensureSqlConnection env_unrecognised world_up (leased_globals 0) =
     (Inr (), leased_globals 0, [])"
    by (simp add: ensureSqlConnection_def k pool_connected_def leased_globals_def)
  have e2: "ensureSqlConnection env_default world_up (leased_globals 0) =
     (Inr (),
      \<lparr> globalSqlPool = Some \<lparr> pool_id = 1, connected = True \<rparr>,
        globalAccessToken = Some ''tok'',
        globalTokenExpiresOn = Some (Date 5000000) \<rparr>,
      [AcquireToken, ClosePool \<lparr> pool_id = 7, connected = True \<rparr>,
       SqlConnect ((baseConfig env_default)
         \<lparr> authentication := Some (AzureActiveDirectoryAccessToken (Some ''tok'')) \<rparr>)])"
    by (simp add: ensureSqlConnection_def d c' pool_connected_def leased_globals_def
          close_old_pool_def new_Date_def) (simp add: world_up_def)
  have e3: "ensureSqlConnection env_unrecognised world_up initial_globals =
     (Inr (), initial_globals \<lparr> globalSqlPool := Some \<lparr> pool_id = 1, connected = True \<rparr> \<rparr>,
      [AcquireToken,
       SqlConnect ((baseConfig env_unrecognised)
         \<lparr> authentication := Some (AzureActiveDirectoryAccessToken (Some ''tok'')) \<rparr>)])"
    by (simp add: ensureSqlConnection_def k c pool_connected_def initial_globals_def
          close_old_pool_def) (simp add: world_up_def)
  have e4: "ensureSqlConnection env_unrecognised (world_up \<lparr> now := 9000000 \<rparr>)
       (initial_globals \<lparr> globalSqlPool := Some \<lparr> pool_id = 1, connected = True \<rparr> \<rparr>) =
     (Inr (), initial_globals \<lparr> globalSqlPool := Some \<lparr> pool_id = 1, connected = True \<rparr> \<rparr>, [])"
    by (simp add: ensureSqlConnection_def k pool_connected_def initial_globals_def)
  from k c e1 e2 e3 e4 show ?thesis by simp
qed

section \<open>The call handler\<close>




text \<open>
  C2. With \<open>READONLY=true\<close> the tool list holds the list, read and describe tools
  only, but a call of the insert tool is still dispatched: the handler connects, runs
  the body of the insert tool and returns its result in a success response, not the
  response for an unknown tool.
\<close>

theorem readonly_insert_still_dispatched:
  "isReadOnly env_readonly \<and>
   map name (ListToolsRequest_handler env_readonly example_tools) =
     [''list_table'', ''read_data'', ''describe_table''] \<and>
   CallToolRequest_handler example_stringify example_tools env_readonly world_up initial_globals
     ''insert_data'' None =
     (Inr \<lparr> content = [\<lparr> ctype = ''text'', ctext = Some ''inserted'' \<rparr>], isError = None \<rparr>,
      initial_globals \<lparr> globalSqlPool := Some \<lparr> pool_id = 1, connected = True \<rparr> \<rparr>,
      [SqlConnect ((baseConfig env_readonly) \<lparr> user := Some ''sa'', password := Some ''pw'' \<rparr>),
       ToolBody ''insert_data'' None])"
proof -
  have ro: "isReadOnly env_readonly" by (simp add: isReadOnly_def env_readonly_def)
  have ens: "ensureSqlConnection env_readonly world_up initial_globals =
     (Inr (), initial_globals \<lparr> globalSqlPool := Some \<lparr> pool_id = 1, connected = True \<rparr> \<rparr>,
      [SqlConnect ((baseConfig env_readonly) \<lparr> user := Some ''sa'', password := Some ''pw'' \<rparr>)])"
    by (simp add: ensureSqlConnection_def authType_env_readonly createSqlConfig_env_readonly
          initial_globals_def pool_connected_def close_old_pool_def world_up_def)
  have lst: "map name (ListToolsRequest_handler env_readonly example_tools) =
     [''list_table'', ''read_data'', ''describe_table'']"
    by (simp add: ListToolsRequest_handler_def ro example_tools_def)
  have call: "CallToolRequest_handler example_stringify example_tools env_readonly world_up
     initial_globals ''insert_data'' None =
     (Inr \<lparr> content = [\<lparr> ctype = ''text'', ctext = Some ''inserted'' \<rparr>], isError = None \<rparr>,
      initial_globals \<lparr> globalSqlPool := Some \<lparr> pool_id = 1, connected = True \<rparr> \<rparr>,
      [SqlConnect ((baseConfig env_readonly) \<lparr> user := Some ''sa'', password := Some ''pw'' \<rparr>),
       ToolBody ''insert_data'' None])"
    by (simp add: CallToolRequest_handler_def CallTool_try_def CallTool_switch_def
        run_and_break_def wrapToolRun_def ens example_tools_def example_stringify_def)
  from ro lst call show ?thesis by simp
qed


text \<open>
  C10. When the eight tool names are different: a call of the describe tool whose
  arguments are absent, or whose \<open>tableName\<close> is missing or not a string, gets the
  error response at once, with no outside call and the variables unchanged. A call of
  any of the other seven tools, whatever its arguments, is answered from
  \<open>ensureSqlConnection\<close> and from the tool's own \<open>run\<close> applied to the arguments as
  they came: if the connection cannot be ensured the response is the error response
  for that error; otherwise the body is run on these arguments, and the outcome is the
  success response around its result, or what the \<open>catch\<close> block makes of the value
  the body or \<open>JSON.stringify\<close> threw.
\<close>

theorem describe_table_only_validated:
  assumes names: "distinct (map name (wrapped_tools ts))"
  shows "((case args of None \<Rightarrow> True | Some obj \<Rightarrow> \<not> is_string (map_of obj ''tableName'')) \<longrightarrow>
            CallToolRequest_handler stringify ts e w g (name (describeTableTool ts)) args =
              (Inr \<lparr> content =
                       [\<lparr> ctype = ''text'',
                          ctext = Some ''Missing or invalid 'tableName' argument for describe_table tool.'' \<rparr>],
                     isError = Some True \<rparr>, g, [])) \<and>
         (\<forall>t \<in> set (butlast (wrapped_tools ts)).
            CallToolRequest_handler stringify ts e w g (name t) args =
     (case ensureSqlConnection e w g of
               (Inl err, g', tr) \<Rightarrow>
                 (Inr \<lparr> content = [\<lparr> ctype = ''text'',
                                      ctext = Some (''Error occurred: '' @ error_to_string err) \<rparr>],
                        isError = Some True \<rparr>, g', tr)
             | (Inr u, g', tr) \<Rightarrow>
                 (case run t args of
                    Inl error \<Rightarrow>
                      (case template_literal error of
                         Inl typeError \<Rightarrow> (Inl typeError, g', tr @ [ToolBody (name t) args])
                       | Inr s \<Rightarrow>
                           (Inr \<lparr> content = [\<lparr> ctype = ''text'',
                                                ctext = Some (''Error occurred: '' @ s) \<rparr>],
                                  isError = Some True \<rparr>, g', tr @ [ToolBody (name t) args]))
                  | Inr result \<Rightarrow>
                      (case stringify result of
                         Inl error \<Rightarrow>
                           (case template_literal error of
                              Inl typeError \<Rightarrow> (Inl typeError, g', tr @ [ToolBody (name t) args])
                            | Inr s \<Rightarrow>
                                (Inr \<lparr> content = [\<lparr> ctype = ''text'',
                                                     ctext = Some (''Error occurred: '' @ s) \<rparr>],
                                       isError = Some True \<rparr>, g', tr @ [ToolBody (name t) args]))
                       | Inr s \<Rightarrow>
                           (Inr \<lparr> content = [\<lparr> ctype = ''text'', ctext = s \<rparr>], isError = None \<rparr>,
                            g', tr @ [ToolBody (name t) args])))))"
proof (intro conjI impI ballI)
  assume "case args of None \<Rightarrow> True | Some obj \<Rightarrow> \<not> is_string (map_of obj ''tableName'')"
  from switch_describe_invalid [OF names this]
  show "CallToolRequest_handler stringify ts e w g (name (describeTableTool ts)) args =
              (Inr \<lparr> content =
                       [\<lparr> ctype = ''text'',
                          ctext = Some ''Missing or invalid 'tableName' argument for describe_table tool.'' \<rparr>],
                     isError = Some True \<rparr>, g, [])"
    by (simp add: CallToolRequest_handler_def CallTool_try_def)
next
  fix t
  assume t: "t \<in> set (butlast (wrapped_tools ts))"
  show "CallToolRequest_handler stringify ts e w g (name t) args =
     (case ensureSqlConnection e w g of
               (Inl err, g', tr) \<Rightarrow>
                 (Inr \<lparr> content = [\<lparr> ctype = ''text'',
                                      ctext = Some (''Error occurred: '' @ error_to_string err) \<rparr>],
                        isError = Some True \<rparr>, g', tr)
             | (Inr u, g', tr) \<Rightarrow>
                 (case run t args of
                    Inl error \<Rightarrow>
                      (case template_literal error of
                         Inl typeError \<Rightarrow> (Inl typeError, g', tr @ [ToolBody (name t) args])
                       | Inr s \<Rightarrow>
                           (Inr \<lparr> content = [\<lparr> ctype = ''text'',
                                                ctext = Some (''Error occurred: '' @ s) \<rparr>],
                                  isError = Some True \<rparr>, g', tr @ [ToolBody (name t) args]))
                  | Inr result \<Rightarrow>
                      (case stringify result of
                         Inl error \<Rightarrow>
                           (case template_literal error of
                              Inl typeError \<Rightarrow> (Inl typeError, g', tr @ [ToolBody (name t) args])
                            | Inr s \<Rightarrow>
                                (Inr \<lparr> content = [\<lparr> ctype = ''text'',
                                                     ctext = Some (''Error occurred: '' @ s) \<rparr>],
                                       isError = Some True \<rparr>, g', tr @ [ToolBody (name t) args]))
                       | Inr s \<Rightarrow>
                           (Inr \<lparr> content = [\<lparr> ctype = ''text'', ctext = s \<rparr>], isError = None \<rparr>,
                            g', tr @ [ToolBody (name t) args]))))"
    by (rule handler_after_run [OF switch_plain_tool [OF names t]])
qed

theorem describe_table_only_validated_witness:
  "CallToolRequest_handler example_stringify example_tools env_sql world_up connected_globals
     ''describe_table'' (Some [(''tableName'', JNumber 5)]) =
     (Inr \<lparr> content =
              [\<lparr> ctype = ''text'',
                 ctext = Some ''Missing or invalid 'tableName' argument for describe_table tool.'' \<rparr>],
            isError = Some True \<rparr>, connected_globals, []) \<and>
   CallToolRequest_handler example_stringify example_tools env_sql world_up connected_globals
     ''drop_table'' (Some [(''tableName'', JNumber 5)]) =
     (Inr \<lparr> content = [\<lparr> ctype = ''text'', ctext = Some ''dropped'' \<rparr>], isError = None \<rparr>,
      connected_globals, [ToolBody ''drop_table'' (Some [(''tableName'', JNumber 5)])])"
proof -
  have inv: "case Some [(''tableName'', JNumber 5)] of
               None \<Rightarrow> True | Some obj \<Rightarrow> \<not> is_string (map_of obj ''tableName'')"
    by simp
  have mem: "dropTableTool example_tools \<in> set (butlast (wrapped_tools example_tools))"
    by (simp add: wrapped_tools_def)
  have n: "name (describeTableTool example_tools) = ''describe_table''"
    "name (dropTableTool example_tools) = ''drop_table''"
    by (simp_all add: example_tools_def)
  have r: "run (dropTableTool example_tools) a = Inr ''dropped''" for a
    by (simp add: example_tools_def)
  note inst = describe_table_only_validated [OF example_names,
      of "Some [(''tableName'', JNumber 5)]" example_stringify env_sql world_up connected_globals]
  have a: "CallToolRequest_handler example_stringify example_tools env_sql world_up
     connected_globals ''describe_table'' (Some [(''tableName'', JNumber 5)]) =
     (Inr \<lparr> content =
              [\<lparr> ctype = ''text'',
                 ctext = Some ''Missing or invalid 'tableName' argument for describe_table tool.'' \<rparr>],
            isError = Some True \<rparr>, connected_globals, [])"
    using inst [THEN conjunct1] inv unfolding n by simp
  have b: "CallToolRequest_handler example_stringify example_tools env_sql world_up
     connected_globals ''drop_table'' (Some [(''tableName'', JNumber 5)]) =
     (Inr \<lparr> content = [\<lparr> ctype = ''text'', ctext = Some ''dropped'' \<rparr>], isError = None \<rparr>,
      connected_globals, [ToolBody ''drop_table'' (Some [(''tableName'', JNumber 5)])])"
    using inst [THEN conjunct2, rule_format, OF mem]
    unfolding n ensure_env_sql_connected
    by (simp add: r example_stringify_def)
  from a b show ?thesis by simp
qed

end
